theory Spec2Isabelle
  imports Complex_Main
begin

section \<open>The movies endpoint (api/movies.js) as a shallow embedding\<close>

text \<open>
  The file \<^verbatim>\<open>api/movies.js\<close> exports one HTTP handler. It reads the query
  parameters, builds a parameterised SQL text by string concatenation, runs a count
  query and a data query through a pooled client, and answers with a JSON envelope.

  Conventions of the model:
  \<^item> a JavaScript string is a \<open>string\<close>; one \<open>char\<close> stands for one UTF-16 code unit
    in the range U+0000..U+00FF (ASCII and Latin-1), so \<open>length\<close> is \<open>.length\<close>;
  \<^item> a query parameter is a \<open>string option\<close>: \<open>None\<close> is \<open>undefined\<close> (the
    parameter is not in the query string), each parameter occurs at most once;
  \<^item> a JavaScript number is an \<open>int\<close> (exact below \<open>2^53\<close>), \<open>NaN\<close> is \<open>None\<close>;
  \<^item> the database is a parameter of the handler: what \<open>pool.connect\<close> and
    \<open>client.query\<close> answer; the handler returns its response together with the
    list of calls it made on the client;
  \<^item> response headers and console logging are left out.
\<close>

subsection \<open>Characters, trimming, decimal numbers\<close>

text \<open>The characters \<open>\s\<close>, \<open>trim\<close> and \<open>parseInt\<close> treat as white space
  (WhiteSpace and LineTerminator of ECMAScript), below U+0100: TAB, LF, VT, FF, CR,
  SP and NBSP.\<close>

definition isWhiteSpace :: "char \<Rightarrow> bool" where
  "isWhiteSpace c = (of_char c \<in> {9, 10, 11, 12, 13, 32, 160 :: nat})"

text \<open>The regular expression class \<open>\d\<close>: the ten ASCII digits.\<close>

definition isDigit :: "char \<Rightarrow> bool" where
  "isDigit c = (48 \<le> (of_char c :: nat) \<and> (of_char c :: nat) \<le> 57)"

text \<open>\<open>String.prototype.toLowerCase\<close> on one code unit below U+0100: A-Z and
  U+00C0..U+00DE without the multiplication sign U+00D7 move up by 32.\<close>

definition toLowerCase_char :: "char \<Rightarrow> char" where
  "toLowerCase_char c =
     (let n = of_char c :: nat
      in if (65 \<le> n \<and> n \<le> 90) \<or> (192 \<le> n \<and> n \<le> 222 \<and> n \<noteq> 215)
         then char_of (n + 32) else c)"

definition toLowerCase :: "string \<Rightarrow> string" where
  "toLowerCase s = map toLowerCase_char s"

text \<open>\<open>String.prototype.trim\<close>: white space is dropped at both ends.\<close>

definition trim :: "string \<Rightarrow> string" where
  "trim s = rev (dropWhile isWhiteSpace (rev (dropWhile isWhiteSpace s)))"

text \<open>\<open>s.replace(/[...]+/g, '')\<close>: going from left to right, every maximal run of
  characters of the class is replaced by the empty string.\<close>

function remove_runs :: "(char \<Rightarrow> bool) \<Rightarrow> string \<Rightarrow> string" where
  "remove_runs p [] = []"
| "remove_runs p (c # cs) =
     (if p c then remove_runs p (dropWhile p cs) else c # remove_runs p cs)"
  by pat_completeness auto
termination
  by (relation "measure (\<lambda>(p, s). length s)")
     (auto simp: length_dropWhile_le less_Suc_eq_le)

text \<open>Decimal rendering of a number, as \<open>String(n)\<close> and template literals give it
  for an integer.\<close>

fun show_nat :: "nat \<Rightarrow> string" where
  "show_nat n =
     (if n < 10 then [char_of (48 + n)]
      else show_nat (n div 10) @ [char_of (48 + n mod 10)])"

declare show_nat.simps [simp del]

definition show_int :: "int \<Rightarrow> string" where
  "show_int i = (if i < 0 then CHR ''-'' # show_nat (nat (- i)) else show_nat (nat i))"

definition digits_value :: "string \<Rightarrow> int" where
  "digits_value ds = foldl (\<lambda>a c. 10 * a + (int (of_char c) - 48)) 0 ds"

text \<open>\<open>parseInt(s, 10)\<close>: leading white space is skipped, one sign is read, then
  the longest prefix of decimal digits; with no digit the result is \<open>NaN\<close>.\<close>

definition parseInt10 :: "string \<Rightarrow> int option" where
  "parseInt10 inputString =
     (let S = dropWhile isWhiteSpace inputString;
          neg = (case S of [] \<Rightarrow> False | c # _ \<Rightarrow> c = CHR ''-'');
          S1 = (case S of [] \<Rightarrow> []
                | c # r \<Rightarrow> if c = CHR ''+'' \<or> c = CHR ''-'' then r else S);
          Z = takeWhile isDigit S1
      in if Z = [] then None
         else Some (if neg then - digits_value Z else digits_value Z))"

subsection \<open>Values\<close>

text \<open>The values the handler binds to placeholders and parses: numbers and strings.\<close>

datatype jsval = JNum int | JNaN | JStr string

fun js_toString :: "jsval \<Rightarrow> string" where
  "js_toString (JNum n) = show_int n"
| "js_toString JNaN = ''NaN''"
| "js_toString (JStr s) = s"

fun js_number :: "int option \<Rightarrow> jsval" where
  "js_number None = JNaN"
| "js_number (Some n) = JNum n"

definition parseInt :: "jsval \<Rightarrow> int option" where
  "parseInt v = parseInt10 (js_toString v)"

text \<open>\<open>x || d\<close> for a number \<open>x\<close>: \<open>NaN\<close> and \<open>0\<close> are falsy.\<close>

fun num_or :: "int option \<Rightarrow> int \<Rightarrow> int" where
  "num_or None d = d"
| "num_or (Some n) d = (if n = 0 then d else n)"

text \<open>\<open>if (v)\<close> for a query parameter: \<open>undefined\<close> and the empty string are
  falsy.\<close>

fun truthy :: "string option \<Rightarrow> bool" where
  "truthy None = False"
| "truthy (Some s) = (s \<noteq> [])"

text \<open>\<open>Math.ceil(a / b)\<close>.\<close>

definition math_ceil_div :: "int \<Rightarrow> int \<Rightarrow> int" where
  "math_ceil_div a b = \<lceil>real_of_int a / real_of_int b\<rceil>"

subsection \<open>mapSortColumn\<close>

text \<open>
  \<^verbatim>\<open>const mapping = { id: 'original_id', ... }; return mapping[key] || 'last_updated_ts';\<close>

  \<open>mapping\<close> is an object literal, so \<open>mapping[key]\<close> also finds the properties
  it inherits from \<open>Object.prototype\<close>: functions, and the object
  \<open>Object.prototype\<close> itself under \<open>__proto__\<close>. All of them are truthy.
\<close>

datatype jsprop = PString string | PNativeFunction string | PObjectPrototype

definition mapping :: "(string \<times> string) list" where
  "mapping =
     [(''id'', ''original_id''),
      (''filename'', ''lower(filename)''),
      (''size'', ''size_bytes''),
      (''quality'', ''quality''),
      (''lastUpdated'', ''last_updated_ts'')]"

text \<open>The function-valued properties of \<open>Object.prototype\<close>, each with the name
  of the function.\<close>

definition object_prototype_functions :: "(string \<times> string) list" where
  "object_prototype_functions =
     [(''constructor'', ''Object''),
      (''hasOwnProperty'', ''hasOwnProperty''),
      (''isPrototypeOf'', ''isPrototypeOf''),
      (''propertyIsEnumerable'', ''propertyIsEnumerable''),
      (''toLocaleString'', ''toLocaleString''),
      (''toString'', ''toString''),
      (''valueOf'', ''valueOf''),
      (''__defineGetter__'', ''__defineGetter__''),
      (''__defineSetter__'', ''__defineSetter__''),
      (''__lookupGetter__'', ''__lookupGetter__''),
      (''__lookupSetter__'', ''__lookupSetter__'')]"

definition mapSortColumn :: "string \<Rightarrow> jsprop" where
  "mapSortColumn key =
     (case map_of mapping key of
        Some col \<Rightarrow> PString col
      | None \<Rightarrow>
          (case map_of object_prototype_functions key of
             Some f \<Rightarrow> PNativeFunction f
           | None \<Rightarrow>
               if key = ''__proto__'' then PObjectPrototype
               else PString ''last_updated_ts''))"

text \<open>What a template literal makes of the value (the text of a native function as
  V8 prints it).\<close>

fun template_text :: "jsprop \<Rightarrow> string" where
  "template_text (PString s) = s"
| "template_text (PNativeFunction f) = ''function '' @ f @ ''() { [native code] }''"
| "template_text PObjectPrototype = ''[object Object]''"

subsection \<open>normalizeSearchTextForComparison\<close>

text \<open>The class \<open>[._\s-]\<close>.\<close>

definition isSeparator :: "char \<Rightarrow> bool" where
  "isSeparator c = (c = CHR ''.'' \<or> c = CHR ''_'' \<or> isWhiteSpace c \<or> c = CHR ''-'')"

text \<open>
  \<^verbatim>\<open>if (!text) return '';
  return String(text).toLowerCase().replace(/[._\s-]+/g, '').trim();\<close>
\<close>

definition normalizeSearchTextForComparison :: "string option \<Rightarrow> string" where
  "normalizeSearchTextForComparison text =
     (case text of
        None \<Rightarrow> []
      | Some t \<Rightarrow> if t = [] then [] else trim (remove_runs isSeparator (toLowerCase t)))"

subsection \<open>The request and its parsed parameters\<close>

text \<open>\<open>request.query\<close>, with the eight parameters the handler destructures.\<close>

record query_params =
  q_search :: "string option"
  q_quality :: "string option"
  q_type :: "string option"
  q_sort :: "string option"
  q_sortDir :: "string option"
  q_page :: "string option"
  q_limit :: "string option"
  q_id :: "string option"

record request =
  http_method :: string
  query :: query_params

text \<open>The destructuring defaults: \<open>sort = 'lastUpdated'\<close>, \<open>sortDir = 'desc'\<close>,
  \<open>page = 1\<close>, \<open>limit = 50\<close> replace \<open>undefined\<close> only.\<close>

definition sort_of :: "query_params \<Rightarrow> string" where
  "sort_of q = (case q_sort q of None \<Rightarrow> ''lastUpdated'' | Some s \<Rightarrow> s)"

definition sortDir_of :: "query_params \<Rightarrow> string" where
  "sortDir_of q = (case q_sortDir q of None \<Rightarrow> ''desc'' | Some s \<Rightarrow> s)"

definition page_of :: "query_params \<Rightarrow> jsval" where
  "page_of q = (case q_page q of None \<Rightarrow> JNum 1 | Some s \<Rightarrow> JStr s)"

definition limit_of :: "query_params \<Rightarrow> jsval" where
  "limit_of q = (case q_limit q of None \<Rightarrow> JNum 50 | Some s \<Rightarrow> JStr s)"

text \<open>\<^verbatim>\<open>const currentPage = Math.max(1, parseInt(page, 10) || 1);\<close>\<close>

definition currentPage :: "query_params \<Rightarrow> int" where
  "currentPage q = max 1 (num_or (parseInt (page_of q)) 1)"

text \<open>\<^verbatim>\<open>const currentLimit = Math.max(1, Math.min(100, parseInt(limit, 10) || 50));\<close>\<close>

definition currentLimit :: "query_params \<Rightarrow> int" where
  "currentLimit q = max 1 (min 100 (num_or (parseInt (limit_of q)) 50))"

text \<open>\<^verbatim>\<open>const offset = (currentPage - 1) * currentLimit;\<close>\<close>

definition offset :: "query_params \<Rightarrow> int" where
  "offset q = (currentPage q - 1) * currentLimit q"

definition sortColumn :: "query_params \<Rightarrow> jsprop" where
  "sortColumn q = mapSortColumn (sort_of q)"

text \<open>\<^verbatim>\<open>const sortDirection = sortDir?.toLowerCase() === 'asc' ? 'ASC' : 'DESC';\<close>\<close>

definition sortDirection :: "query_params \<Rightarrow> string" where
  "sortDirection q = (if toLowerCase (sortDir_of q) = ''asc'' then ''ASC'' else ''DESC'')"

subsection \<open>Building the filter\<close>

text \<open>The three variables the filtering logic updates: the text after
  \<open>SELECT ...\<close>, the bound values, and the number of the next placeholder.\<close>

record builder =
  baseQuery :: string
  queryParams :: "jsval list"
  paramIndex :: nat

text \<open>\<^verbatim>\<open>$${paramIndex++}\<close>: a dollar sign and the number.\<close>

definition placeholder :: "nat \<Rightarrow> string" where
  "placeholder i = CHR ''$'' # show_nat i"

text \<open>The SQL expression the file name is normalised with:
  \<^verbatim>\<open>regexp_replace(lower(filename), '[._\s-]+', '', 'g')\<close>.\<close>

definition normalizedDbFilename :: string where
  "normalizedDbFilename =
     ''regexp_replace(lower(filename), '' @ [CHR 0x27] @ ''[._'' @ [CHR 0x5C] @ ''s-]+''
       @ [CHR 0x27] @ '', '' @ [CHR 0x27, CHR 0x27] @ '', '' @ [CHR 0x27] @ ''g''
       @ [CHR 0x27] @ '')''"

text \<open>\<^verbatim>\<open>/^\d+$/.test(searchTerm)\<close>.\<close>

definition isNumericSearch :: "string \<Rightarrow> bool" where
  "isNumericSearch searchTerm = (searchTerm \<noteq> [] \<and> list_all isDigit searchTerm)"

definition initial_builder :: builder where
  "initial_builder =
     \<lparr>baseQuery = ''FROM movies WHERE 1=1'', queryParams = [], paramIndex = 1\<rparr>"

definition add_id_filter :: "string \<Rightarrow> builder \<Rightarrow> builder" where
  "add_id_filter i b =
     \<lparr>baseQuery = baseQuery b @ '' AND original_id = '' @ placeholder (paramIndex b),
      queryParams = queryParams b @ [JStr i],
      paramIndex = paramIndex b + 1\<rparr>"

definition add_search_filter :: "string option \<Rightarrow> builder \<Rightarrow> builder" where
  "add_search_filter search b =
     (case search of
        None \<Rightarrow> b
      | Some s \<Rightarrow>
          if s = [] then b
          else
            let searchTerm = trim s in
            if isNumericSearch searchTerm \<and> length searchTerm < 10 then
              let normalizedSearchTerm = normalizeSearchTextForComparison (Some searchTerm) in
              \<lparr>baseQuery = baseQuery b @ '' AND (original_id = '' @ placeholder (paramIndex b)
                   @ '' OR '' @ normalizedDbFilename @ '' ILIKE ''
                   @ placeholder (paramIndex b + 1) @ '')'',
               queryParams = queryParams b
                   @ [js_number (parseInt (JStr searchTerm)),
                      JStr (''%'' @ normalizedSearchTerm @ ''%'')],
               paramIndex = paramIndex b + 2\<rparr>
            else
              let normalizedSearchTerm = normalizeSearchTextForComparison (Some searchTerm) in
              if normalizedSearchTerm = [] then b
              else
                \<lparr>baseQuery = baseQuery b @ '' AND '' @ normalizedDbFilename @ '' ILIKE ''
                     @ placeholder (paramIndex b),
                 queryParams = queryParams b @ [JStr (''%'' @ normalizedSearchTerm @ ''%'')],
                 paramIndex = paramIndex b + 1\<rparr>)"

definition add_quality_filter :: "string option \<Rightarrow> builder \<Rightarrow> builder" where
  "add_quality_filter quality b =
     (case quality of
        None \<Rightarrow> b
      | Some v \<Rightarrow>
          if v = [] then b
          else
            \<lparr>baseQuery = baseQuery b @ '' AND quality = '' @ placeholder (paramIndex b),
             queryParams = queryParams b @ [JStr v],
             paramIndex = paramIndex b + 1\<rparr>)"

definition add_type_filter :: "string option \<Rightarrow> builder \<Rightarrow> builder" where
  "add_type_filter type b =
     (if type = Some ''movies'' then b\<lparr>baseQuery := baseQuery b @ '' AND is_series = FALSE''\<rparr>
      else if type = Some ''series'' then b\<lparr>baseQuery := baseQuery b @ '' AND is_series = TRUE''\<rparr>
      else b)"

text \<open>The filtering logic as a whole: with a truthy \<open>id\<close> only the id predicate,
  otherwise search, quality and type in this order.\<close>

definition build_filters :: "query_params \<Rightarrow> builder" where
  "build_filters q =
     (case q_id q of
        None \<Rightarrow>
          add_type_filter (q_type q)
            (add_quality_filter (q_quality q) (add_search_filter (q_search q) initial_builder))
      | Some i \<Rightarrow>
          if i = [] then
            add_type_filter (q_type q)
              (add_quality_filter (q_quality q) (add_search_filter (q_search q) initial_builder))
          else add_id_filter i initial_builder)"

subsection \<open>The two queries\<close>

definition countSql :: "query_params \<Rightarrow> string" where
  "countSql q = ''SELECT COUNT(*) '' @ baseQuery (build_filters q)"

definition countParams :: "query_params \<Rightarrow> jsval list" where
  "countParams q = queryParams (build_filters q)"

text \<open>
  \<^verbatim>\<open>const orderByClause = `ORDER BY ${sortColumn} ${sortDirection}
    ${sortColumn === 'size_bytes' ? 'NULLS LAST' : ''}, original_id ${sortDirection}`;\<close>
\<close>

definition orderByClause :: "query_params \<Rightarrow> string" where
  "orderByClause q =
     ''ORDER BY '' @ template_text (sortColumn q) @ '' '' @ sortDirection q @ '' ''
       @ (if sortColumn q = PString ''size_bytes'' then ''NULLS LAST'' else [])
       @ '', original_id '' @ sortDirection q"

definition dataSql :: "query_params \<Rightarrow> string" where
  "dataSql q =
     (let b = build_filters q in
      if truthy (q_id q) then ''SELECT * '' @ baseQuery b @ '' LIMIT 1''
      else ''SELECT * '' @ baseQuery b @ '' '' @ orderByClause q
             @ '' LIMIT '' @ placeholder (paramIndex b)
             @ '' OFFSET '' @ placeholder (paramIndex b + 1))"

definition dataParams :: "query_params \<Rightarrow> jsval list" where
  "dataParams q =
     (let b = build_filters q in
      if truthy (q_id q) then queryParams b
      else queryParams b @ [JNum (currentLimit q), JNum (offset q)])"

subsection \<open>The handler\<close>

text \<open>
  The database as the handler sees it: whether \<open>pool.connect()\<close> rejects (with which
  message), what the count query answers (the count of its first row, which
  \<open>parseInt\<close> reads back from its decimal text) and what the data query answers
  (its rows), each possibly an error message; and whether \<open>NODE_ENV\<close> is
  \<open>development\<close>.
\<close>

record 'row database =
  connect_error :: "string option"
  count_rows :: "string \<Rightarrow> jsval list \<Rightarrow> string + nat"
  select_rows :: "string \<Rightarrow> jsval list \<Rightarrow> string + 'row list"
  development :: bool

text \<open>What the handler does on the client, in order.\<close>

datatype event = Connected | Query string "jsval list" | Released

record 'row envelope =
  items :: "'row list"
  totalItems :: int
  page :: int
  totalPages :: int
  limit :: int
  filters :: "string option \<times> string option \<times> string option"
  sorting :: "string \<times> string"

datatype 'row response =
    End200
  | Json405 string
  | Json200 "'row envelope"
  | Json500 string string

definition error_response :: "'row database \<Rightarrow> string \<Rightarrow> 'row response" where
  "error_response db message =
     Json500 ''Failed to fetch movie data from database.''
       (if development db then message else ''Internal Server Error. Check API logs.'')"

definition make_envelope :: "query_params \<Rightarrow> 'row list \<Rightarrow> int \<Rightarrow> int \<Rightarrow> 'row envelope" where
  "make_envelope q rows totalCount pages =
     \<lparr>items = rows, totalItems = totalCount, page = currentPage q, totalPages = pages,
      limit = currentLimit q,
      filters = (q_search q, q_quality q, q_type q),
      sorting = (sort_of q, sortDir_of q)\<rparr>"

text \<open>The data query and the final response; \<open>calls\<close> holds the calls made so far.\<close>

definition data_query ::
  "'row database \<Rightarrow> query_params \<Rightarrow> int \<Rightarrow> event list \<Rightarrow> 'row response \<times> event list" where
  "data_query db q totalCount calls =
     (case select_rows db (dataSql q) (dataParams q) of
        Inl message \<Rightarrow>
          (error_response db message, calls @ [Query (dataSql q) (dataParams q), Released])
      | Inr rows \<Rightarrow>
          (Json200 (make_envelope q rows totalCount
             (if truthy (q_id q) then 1 else math_ceil_div totalCount (currentLimit q))),
           calls @ [Query (dataSql q) (dataParams q), Released]))"

text \<open>The body of the \<open>try\<close> block with its \<open>catch\<close> and \<open>finally\<close>.\<close>

definition run_queries :: "'row database \<Rightarrow> query_params \<Rightarrow> 'row response \<times> event list" where
  "run_queries db q =
     (case connect_error db of
        Some message \<Rightarrow> (error_response db message, [])
      | None \<Rightarrow>
          if truthy (q_id q) then data_query db q 1 [Connected]
          else
            (case count_rows db (countSql q) (countParams q) of
               Inl message \<Rightarrow>
                 (error_response db message,
                  [Connected, Query (countSql q) (countParams q), Released])
             | Inr n \<Rightarrow>
                 if offset q \<ge> int n \<and> int n > 0 then
                   (Json200 (make_envelope q [] (int n) (math_ceil_div (int n) (currentLimit q))),
                    [Connected, Query (countSql q) (countParams q), Released])
                 else
                   data_query db q (int n) [Connected, Query (countSql q) (countParams q)]))"

definition handler :: "'row database \<Rightarrow> request \<Rightarrow> 'row response \<times> event list" where
  "handler db req =
     (if http_method req = ''OPTIONS'' then (End200, [])
      else if http_method req \<noteq> ''GET'' then
        (Json405 (''Method '' @ http_method req @ '' Not Allowed''), [])
      else run_queries db (query req))"

subsection \<open>Sample inputs\<close>

text \<open>The request without any query parameter, a database without rows and a
  database whose count query answers 25.\<close>

definition no_params :: query_params where
  "no_params =
     \<lparr>q_search = None, q_quality = None, q_type = None, q_sort = None, q_sortDir = None,
      q_page = None, q_limit = None, q_id = None\<rparr>"

definition no_rows :: "unit database" where
  "no_rows =
     \<lparr>connect_error = None, count_rows = (\<lambda>sql ps. Inr 0),
      select_rows = (\<lambda>sql ps. Inr []), development = False\<rparr>"

definition sample_db :: "unit database" where
  "sample_db =
     \<lparr>connect_error = None, count_rows = (\<lambda>sql ps. Inr 25),
      select_rows = (\<lambda>sql ps. Inr [(), (), (), (), ()]), development = False\<rparr>"

subsection \<open>Reading a query text\<close>







section \<open>Properties\<close>

subsection \<open>Strings and numbers\<close>

lemma filter_dropWhile_not: "filter (\<lambda>c. \<not> p c) (dropWhile p cs) = filter (\<lambda>c. \<not> p c) cs"
  by (induction cs) auto

lemma remove_runs_filter: "remove_runs p s = filter (\<lambda>c. \<not> p c) s"
  by (induction p s rule: remove_runs.induct) (auto simp: filter_dropWhile_not)

lemma toLowerCase_char_idem: "toLowerCase_char (toLowerCase_char c) = toLowerCase_char c"
  by (auto simp: toLowerCase_char_def Let_def)

lemma toLowerCase_idem: "toLowerCase (toLowerCase s) = toLowerCase s"
  by (simp add: toLowerCase_def toLowerCase_char_idem)

lemma dropWhile_none: "list_all (\<lambda>c. \<not> p c) s \<Longrightarrow> dropWhile p s = s"
  by (cases s) auto

lemma trim_no_white: "list_all (\<lambda>c. \<not> isWhiteSpace c) s \<Longrightarrow> trim s = s"
  by (simp add: trim_def dropWhile_none list_all_iff)

lemma list_all_not_white_filter: "list_all (\<lambda>c. \<not> isWhiteSpace c) (filter (\<lambda>c. \<not> isSeparator c) s)"
  by (induction s) (auto simp: isSeparator_def)

lemma normalize_Some:
  "normalizeSearchTextForComparison (Some t) = filter (\<lambda>c. \<not> isSeparator c) (toLowerCase t)"
  by (simp add: normalizeSearchTextForComparison_def remove_runs_filter trim_no_white
      list_all_not_white_filter toLowerCase_def)

lemma isDigit_lower: "isDigit c \<Longrightarrow> toLowerCase_char c = c"
  by (auto simp: isDigit_def toLowerCase_char_def Let_def)

lemma isDigit_not_separator: "isDigit c \<Longrightarrow> \<not> isSeparator c"
  by (auto simp: isDigit_def isSeparator_def isWhiteSpace_def)

lemma isDigit_not_white: "isDigit c \<Longrightarrow> \<not> isWhiteSpace c"
  by (auto simp: isDigit_def isWhiteSpace_def)

lemma isDigit_not_sign: "isDigit c \<Longrightarrow> c \<noteq> CHR ''+'' \<and> c \<noteq> CHR ''-''"
  by (auto simp: isDigit_def)

lemma normalize_digits:
  "list_all isDigit t \<Longrightarrow> normalizeSearchTextForComparison (Some t) = t"
  unfolding normalize_Some toLowerCase_def
  by (induction t) (auto simp: isDigit_lower isDigit_not_separator)

lemma takeWhile_all: "\<forall>x\<in>set s. p x \<Longrightarrow> takeWhile p s = s"
  by (induction s) auto

lemma parseInt10_digits:
  assumes "t \<noteq> []" "list_all isDigit t"
  shows "parseInt10 t = Some (digits_value t)"
proof -
  from assms obtain c r where t: "t = c # r" and c: "isDigit c" and r: "list_all isDigit r"
    by (cases t) auto
  from t c r show ?thesis
    by (simp add: parseInt10_def isDigit_not_white isDigit_not_sign takeWhile_all list_all_iff)
qed

subsection \<open>Building and reading query texts\<close>

lemma placeholder_1: "placeholder 1 = ''$1''" by code_simp

lemma placeholder_2: "placeholder 2 = ''$2''" by code_simp

lemma placeholder_Suc_0: "placeholder (Suc 0) = ''$1''" by code_simp

lemma placeholder_Suc_Suc_0: "placeholder (Suc (Suc 0)) = ''$2''" by code_simp

lemma placeholder_3: "placeholder 3 = ''$3''" by code_simp

lemma placeholder_4: "placeholder 4 = ''$4''" by code_simp

lemma placeholder_5: "placeholder 5 = ''$5''" by code_simp

lemmas placeholder_small = placeholder_1 placeholder_2 placeholder_3 placeholder_4 placeholder_5
  placeholder_Suc_0 placeholder_Suc_Suc_0

lemma build_filters_no_id:
  "\<not> truthy (q_id q) \<Longrightarrow>
     build_filters q =
       add_type_filter (q_type q) (add_quality_filter (q_quality q)
         (add_search_filter (q_search q) initial_builder))"
  by (cases "q_id q") (simp_all add: build_filters_def)

lemma build_filters_id:
  "q_id q = Some i \<Longrightarrow> i \<noteq> [] \<Longrightarrow> build_filters q = add_id_filter i initial_builder"
  by (simp add: build_filters_def)

lemma trim_nonempty: "trim s \<noteq> [] \<Longrightarrow> s \<noteq> []"
  by (auto simp: trim_def)

lemma id_lookup_predicate_aux:
  assumes "q_id q = Some i" and "i \<noteq> []"
  shows "build_filters q =
           \<lparr>baseQuery = ''FROM movies WHERE 1=1 AND original_id = $1'',
            queryParams = [JStr i], paramIndex = 2\<rparr>
         \<and> dataSql q = ''SELECT * FROM movies WHERE 1=1 AND original_id = $1 LIMIT 1''
         \<and> dataParams q = [JStr i]"
  using assms
  by (simp add: build_filters_id add_id_filter_def initial_builder_def placeholder_small
      dataSql_def dataParams_def)





lemmas plan_defs = build_filters_def countSql_def countParams_def dataSql_def dataParams_def
  orderByClause_def sortColumn_def sortDirection_def sort_of_def sortDir_of_def
  currentPage_def currentLimit_def offset_def page_of_def limit_of_def





























lemma mapSortColumn_own_or_default:
  "map_of object_prototype_functions key = None \<Longrightarrow> key \<noteq> ''__proto__'' \<Longrightarrow>
     mapSortColumn key =
       PString (if key = ''id'' then ''original_id''
                else if key = ''filename'' then ''lower(filename)''
                else if key = ''size'' then ''size_bytes''
                else if key = ''quality'' then ''quality''
                else ''last_updated_ts'')"
  by (simp add: mapSortColumn_def mapping_def)

lemma orderByClause_column:
  "sortColumn q = PString col \<Longrightarrow>
     orderByClause q =
       ''ORDER BY '' @ col @ '' '' @ sortDirection q @ '' ''
         @ (if col = ''size_bytes'' then ''NULLS LAST'' else [])
         @ '', original_id '' @ sortDirection q"
  by (simp add: orderByClause_def)

lemma sortDirection_cases:
  "sortDirection q = (if toLowerCase (sortDir_of q) = ''asc'' then ''ASC'' else ''DESC'')"
  by (simp add: sortDirection_def)

section \<open>The claims\<close>

subsection \<open>C1: numeric search\<close>

text \<open>
  Claim C1. For a request without id whose trimmed search is a non-empty string of
  digits: when it has fewer than 10 characters, the search predicate is the
  disjunction \<open>(original_id = $1 OR <normalized filename> ILIKE $2)\<close> with the parsed
  number bound to \<open>$1\<close> and \<open>%<normalized search>%\<close> bound to \<open>$2\<close>; when it has 10
  characters or more, the predicate is the plain \<open><normalized filename> ILIKE $1\<close>
  with \<open>%<normalized search>%\<close> bound to \<open>$1\<close> and no id alternative. The quality and
  type predicates follow as for any request. The parsed number is the decimal value
  of the digits, and normalizing a digit string leaves it as it is.
\<close>

theorem numeric_search_predicate:
  assumes "\<not> truthy (q_id q)" and "q_search q = Some s"
    and "isNumericSearch (trim s)"
  shows "build_filters q =
           add_type_filter (q_type q) (add_quality_filter (q_quality q)
             (if length (trim s) < 10 then
                \<lparr>baseQuery = ''FROM movies WHERE 1=1 AND (original_id = $1 OR ''
                     @ normalizedDbFilename @ '' ILIKE $2)'',
                 queryParams = [JNum (digits_value (trim s)), JStr (''%'' @ trim s @ ''%'')],
                 paramIndex = 3\<rparr>
              else
                \<lparr>baseQuery = ''FROM movies WHERE 1=1 AND '' @ normalizedDbFilename
                     @ '' ILIKE $1'',
                 queryParams = [JStr (''%'' @ trim s @ ''%'')],
                 paramIndex = 2\<rparr>))
         \<and> parseInt (JStr (trim s)) = Some (digits_value (trim s))
         \<and> normalizeSearchTextForComparison (Some (trim s)) = trim s"
proof -
  from assms(3) have ne: "trim s \<noteq> []" and dig: "list_all isDigit (trim s)"
    by (simp_all add: isNumericSearch_def)
  from ne have sne: "s \<noteq> []" by (rule trim_nonempty)
  have p: "parseInt (JStr (trim s)) = Some (digits_value (trim s))"
    using ne dig by (simp add: parseInt_def parseInt10_digits)
  have n: "normalizeSearchTextForComparison (Some (trim s)) = trim s"
    using dig by (rule normalize_digits)
  have "add_search_filter (q_search q) initial_builder =
          (if length (trim s) < 10 then
                \<lparr>baseQuery = ''FROM movies WHERE 1=1 AND (original_id = $1 OR ''
                     @ normalizedDbFilename @ '' ILIKE $2)'',
                 queryParams = [JNum (digits_value (trim s)), JStr (''%'' @ trim s @ ''%'')],
                 paramIndex = 3\<rparr>
              else
                \<lparr>baseQuery = ''FROM movies WHERE 1=1 AND '' @ normalizedDbFilename
                     @ '' ILIKE $1'',
                 queryParams = [JStr (''%'' @ trim s @ ''%'')],
                 paramIndex = 2\<rparr>)"
    using assms(2,3) sne p n ne
    by (simp add: add_search_filter_def initial_builder_def placeholder_small Let_def)
  with build_filters_no_id [OF assms(1)] p n show ?thesis by simp
qed

theorem numeric_search_predicate_witness:
  "build_filters (no_params\<lparr>q_search := Some '' 007 ''\<rparr>) =
     \<lparr>baseQuery = ''FROM movies WHERE 1=1 AND (original_id = $1 OR ''
          @ normalizedDbFilename @ '' ILIKE $2)'',
      queryParams = [JNum 7, JStr ''%007%''],
      paramIndex = 3\<rparr>
   \<and> build_filters (no_params\<lparr>q_search := Some ''1234567890''\<rparr>) =
     \<lparr>baseQuery = ''FROM movies WHERE 1=1 AND '' @ normalizedDbFilename @ '' ILIKE $1'',
      queryParams = [JStr ''%1234567890%''],
      paramIndex = 2\<rparr>"
proof -
  have t1: "trim '' 007 '' = ''007''" by code_simp
  have d1: "digits_value ''007'' = 7" by code_simp
  have n1: "isNumericSearch ''007''" by code_simp
  have t2: "trim ''1234567890'' = ''1234567890''" by code_simp
  have n2: "isNumericSearch ''1234567890''" by code_simp
  have a: "add_type_filter None (add_quality_filter None b) = b" for b
    by (simp add: add_type_filter_def add_quality_filter_def)
  from numeric_search_predicate [of "no_params\<lparr>q_search := Some '' 007 ''\<rparr>" "'' 007 ''"]
       numeric_search_predicate [of "no_params\<lparr>q_search := Some ''1234567890''\<rparr>" "''1234567890''"]
  show ?thesis
    by (simp add: no_params_def t1 d1 n1 t2 n2 a)
qed

subsection \<open>C2: the search-text normalizer\<close>



subsection \<open>C3: exact id lookup\<close>

text \<open>
  Claim C3. When id is present (a non-empty string), the filter is exactly
  \<open>original_id = $1\<close> with the id bound to \<open>$1\<close>: whatever search, quality and type
  are, nothing else is appended, and the data query is this filter with \<open>LIMIT 1\<close>.
\<close>

theorem id_lookup_predicate:
  assumes "q_id q = Some i" and "i \<noteq> []"
  shows "build_filters q =
           \<lparr>baseQuery = ''FROM movies WHERE 1=1 AND original_id = $1'',
            queryParams = [JStr i], paramIndex = 2\<rparr>
         \<and> dataSql q = ''SELECT * FROM movies WHERE 1=1 AND original_id = $1 LIMIT 1''
         \<and> dataParams q = [JStr i]"
  using assms by (rule id_lookup_predicate_aux)

theorem id_lookup_predicate_witness:
  "build_filters \<lparr>q_search = Some ''123'', q_quality = Some ''1080p'', q_type = Some ''series'',
       q_sort = Some ''size'', q_sortDir = Some ''asc'', q_page = Some ''2'', q_limit = Some ''10'',
       q_id = Some ''42''\<rparr> =
     \<lparr>baseQuery = ''FROM movies WHERE 1=1 AND original_id = $1'',
      queryParams = [JStr ''42''], paramIndex = 2\<rparr>"
  using id_lookup_predicate [of "\<lparr>q_search = Some ''123'', q_quality = Some ''1080p'',
       q_type = Some ''series'', q_sort = Some ''size'', q_sortDir = Some ''asc'',
       q_page = Some ''2'', q_limit = Some ''10'', q_id = Some ''42''\<rparr>" "''42''"]
  by simp

subsection \<open>C4: the effective limit\<close>

text \<open>
  Claim C4 says that every limit below 1 gives the effective limit 1. The limit \<open>0\<close>
  parses to the number 0, which is less than 1, and the effective limit is 50:
  \<open>0 || 50\<close> is 50.
\<close>

theorem limit_zero_counterexample:
  "parseInt (JStr ''0'') = Some 0 \<and> (0::int) < 1
   \<and> currentLimit (no_params\<lparr>q_limit := Some ''0''\<rparr>) = 50"
  by code_simp

text \<open>
  Claim C4, as the code has it. The limit is parsed as an integer; when parsing fails
  or gives 0 the limit is 50; any other parsed value is clamped to the range from 1
  to 100: a negative value gives 1 and a value above 100 gives 100. The effective
  limit always lies between 1 and 100.
\<close>

theorem currentLimit_clamped:
  "currentLimit q =
     (case parseInt (limit_of q) of
        None \<Rightarrow> 50
      | Some n \<Rightarrow> if n = 0 then 50 else if n < 1 then 1 else if 100 < n then 100 else n)
   \<and> 1 \<le> currentLimit q \<and> currentLimit q \<le> 100"
  by (auto simp: currentLimit_def split: option.splits)

theorem currentLimit_clamped_witness:
  "currentLimit (no_params\<lparr>q_limit := Some ''-5''\<rparr>) = 1
   \<and> currentLimit (no_params\<lparr>q_limit := Some ''250''\<rparr>) = 100
   \<and> currentLimit (no_params\<lparr>q_limit := Some ''abc''\<rparr>) = 50
   \<and> currentLimit (no_params\<lparr>q_limit := Some ''0''\<rparr>) = 50
   \<and> currentLimit (no_params\<lparr>q_limit := Some ''25''\<rparr>) = 25
   \<and> currentLimit no_params = 50"
proof -
  have p: "parseInt (limit_of (no_params\<lparr>q_limit := Some ''-5''\<rparr>)) = Some (- 5)"
          "parseInt (limit_of (no_params\<lparr>q_limit := Some ''250''\<rparr>)) = Some 250"
          "parseInt (limit_of (no_params\<lparr>q_limit := Some ''abc''\<rparr>)) = None"
          "parseInt (limit_of (no_params\<lparr>q_limit := Some ''0''\<rparr>)) = Some 0"
          "parseInt (limit_of (no_params\<lparr>q_limit := Some ''25''\<rparr>)) = Some 25"
          "parseInt (limit_of no_params) = Some 50"
    by code_simp+
  from currentLimit_clamped [of "no_params\<lparr>q_limit := Some ''-5''\<rparr>"]
       currentLimit_clamped [of "no_params\<lparr>q_limit := Some ''250''\<rparr>"]
       currentLimit_clamped [of "no_params\<lparr>q_limit := Some ''abc''\<rparr>"]
       currentLimit_clamped [of "no_params\<lparr>q_limit := Some ''0''\<rparr>"]
       currentLimit_clamped [of "no_params\<lparr>q_limit := Some ''25''\<rparr>"]
       currentLimit_clamped [of "no_params"]
  show ?thesis by (simp add: p)
qed

subsection \<open>C5: the effective page and the offset\<close>



subsection \<open>C6: a page beyond the results\<close>

text \<open>
  Claim C6. For a GET request without id on a database that connects, when the
  count query answers \<open>n\<close> with \<open>offset \<ge> n\<close> and \<open>n > 0\<close>, the handler answers 200
  with no items, \<open>totalItems = n\<close>, \<open>totalPages = ceil(n / limit)\<close>, the effective page
  and limit and the echoes of search, quality, type, sort and sortDir; the count
  query is the only query it runs.
\<close>

theorem page_beyond_results:
  assumes "http_method req = ''GET''" and "connect_error db = None"
    and "\<not> truthy (q_id (query req))"
    and "count_rows db (countSql (query req)) (countParams (query req)) = Inr n"
    and "int n \<le> offset (query req)" and "0 < n"
  shows "handler db req =
           (Json200
              \<lparr>items = [], totalItems = int n, page = currentPage (query req),
               totalPages = \<lceil>real n / real_of_int (currentLimit (query req))\<rceil>,
               limit = currentLimit (query req),
               filters = (q_search (query req), q_quality (query req), q_type (query req)),
               sorting = (sort_of (query req), sortDir_of (query req))\<rparr>,
            [Connected, Query (countSql (query req)) (countParams (query req)), Released])"
  using assms
  by (simp add: handler_def run_queries_def make_envelope_def math_ceil_div_def)

theorem page_beyond_results_witness:
  "handler sample_db
     \<lparr>http_method = ''GET'', query = no_params\<lparr>q_page := Some ''4'', q_limit := Some ''10''\<rparr>\<rparr> =
     (Json200
        \<lparr>items = [], totalItems = 25, page = 4, totalPages = 3, limit = 10,
         filters = (None, None, None), sorting = (''lastUpdated'', ''desc'')\<rparr>,
      [Connected, Query ''SELECT COUNT(*) FROM movies WHERE 1=1'' [], Released])"
proof -
  let ?q = "no_params\<lparr>q_page := Some ''4'', q_limit := Some ''10''\<rparr>"
  have v: "currentPage ?q = 4" "currentLimit ?q = 10" "offset ?q = 30"
    "countSql ?q = ''SELECT COUNT(*) FROM movies WHERE 1=1''" "countParams ?q = []"
    "sort_of ?q = ''lastUpdated''" "sortDir_of ?q = ''desc''"
    by code_simp+
  have i: "\<not> truthy (q_id no_params)" "q_search no_params = None" "q_quality no_params = None"
    "q_type no_params = None"
    by (simp_all add: no_params_def)
  have c: "connect_error sample_db = None" "count_rows sample_db = (\<lambda>sql ps. Inr 25)"
    by (simp_all add: sample_db_def)
  have r: "\<lceil>(5::real) / 2\<rceil> = 3"
    by (rule ceiling_unique) simp_all
  from page_beyond_results [of "\<lparr>http_method = ''GET'', query = ?q\<rparr>" sample_db 25]
  show ?thesis by (simp add: v i c r)
qed

subsection \<open>C7: the ORDER BY clause\<close>

text \<open>
  Claim C7 says that every sort key other than id, filename, size, quality and
  lastUpdated resolves to \<open>last_updated_ts\<close>. The sort key \<open>constructor\<close> does not:
  \<open>mapping['constructor']\<close> is the function \<open>Object\<close>, which is truthy, and its source
  text goes into the ORDER BY clause.
\<close>

theorem inherited_sort_key:
  "mapSortColumn ''constructor'' = PNativeFunction ''Object''
   \<and> dataSql (no_params\<lparr>q_sort := Some ''constructor''\<rparr>) =
       ''SELECT * FROM movies WHERE 1=1 ORDER BY function Object() { [native code] } DESC , original_id DESC LIMIT $1 OFFSET $2''"
  by code_simp

subsection \<open>C8: the totals of an id lookup\<close>

text \<open>
  Claim C8. For a GET request with id present (a non-empty string) on a database
  that connects and answers the data query with \<open>rows\<close>, the handler runs the data
  query only (no count query) and reports \<open>totalItems = 1\<close> and \<open>totalPages = 1\<close>
  whatever \<open>rows\<close> is, also when it is empty.
\<close>

theorem id_lookup_totals:
  assumes "http_method req = ''GET''" and "connect_error db = None"
    and "q_id (query req) = Some i" and "i \<noteq> []"
    and "select_rows db (dataSql (query req)) (dataParams (query req)) = Inr rows"
  shows "handler db req =
           (Json200
              \<lparr>items = rows, totalItems = 1, page = currentPage (query req),
               totalPages = 1, limit = currentLimit (query req),
               filters = (q_search (query req), q_quality (query req), q_type (query req)),
               sorting = (sort_of (query req), sortDir_of (query req))\<rparr>,
            [Connected,
             Query ''SELECT * FROM movies WHERE 1=1 AND original_id = $1 LIMIT 1'' [JStr i],
             Released])"
proof -
  have q: "dataSql (query req) = ''SELECT * FROM movies WHERE 1=1 AND original_id = $1 LIMIT 1''"
    "dataParams (query req) = [JStr i]"
    using id_lookup_predicate_aux [OF assms(3,4)] by simp_all
  from assms q show ?thesis
    by (simp add: handler_def run_queries_def data_query_def make_envelope_def)
qed

theorem id_lookup_totals_witness:
  "handler no_rows \<lparr>http_method = ''GET'', query = no_params\<lparr>q_id := Some ''42''\<rparr>\<rparr> =
     (Json200
        \<lparr>items = [], totalItems = 1, page = 1, totalPages = 1, limit = 50,
         filters = (None, None, None), sorting = (''lastUpdated'', ''desc'')\<rparr>,
      [Connected,
       Query ''SELECT * FROM movies WHERE 1=1 AND original_id = $1 LIMIT 1'' [JStr ''42''],
       Released])"
proof -
  let ?q = "no_params\<lparr>q_id := Some ''42''\<rparr>"
  have v: "currentPage ?q = 1" "currentLimit ?q = 50"
    "sort_of ?q = ''lastUpdated''" "sortDir_of ?q = ''desc''"
    by code_simp+
  have i: "q_search no_params = None" "q_quality no_params = None" "q_type no_params = None"
    by (simp_all add: no_params_def)
  have c: "connect_error no_rows = None" "select_rows no_rows = (\<lambda>sql ps. Inr [])"
    by (simp_all add: no_rows_def)
  from id_lookup_totals [of "\<lparr>http_method = ''GET'', query = ?q\<rparr>" no_rows "''42''" "[]"]
  show ?thesis by (simp add: v i c)
qed

subsection \<open>C9: placeholders\<close>




subsection \<open>C10: empty strings\<close>

text \<open>
  Claim C10. A request with the empty string as id gets the answer of the request
  without id, and its filter is built from search, quality and type; an empty or
  absent search adds no predicate, and so does an empty or absent quality; with an
  empty search (or quality) the filter, both query texts and the bound values are
  those of the request without search (or quality).
\<close>

theorem empty_string_as_absent:
  "handler db (req\<lparr>query := (query req)\<lparr>q_id := Some []\<rparr>\<rparr>) =
     handler db (req\<lparr>query := (query req)\<lparr>q_id := None\<rparr>\<rparr>)
   \<and> build_filters (q\<lparr>q_id := Some []\<rparr>) =
       add_type_filter (q_type q) (add_quality_filter (q_quality q)
         (add_search_filter (q_search q) initial_builder))
   \<and> add_search_filter (Some []) b = b \<and> add_search_filter None b = b
   \<and> add_quality_filter (Some []) b = b \<and> add_quality_filter None b = b
   \<and> build_filters (q\<lparr>q_search := Some []\<rparr>) = build_filters (q\<lparr>q_search := None\<rparr>)
   \<and> countSql (q\<lparr>q_search := Some []\<rparr>) = countSql (q\<lparr>q_search := None\<rparr>)
   \<and> dataSql (q\<lparr>q_search := Some []\<rparr>) = dataSql (q\<lparr>q_search := None\<rparr>)
   \<and> dataParams (q\<lparr>q_search := Some []\<rparr>) = dataParams (q\<lparr>q_search := None\<rparr>)
   \<and> build_filters (q\<lparr>q_quality := Some []\<rparr>) = build_filters (q\<lparr>q_quality := None\<rparr>)
   \<and> countSql (q\<lparr>q_quality := Some []\<rparr>) = countSql (q\<lparr>q_quality := None\<rparr>)
   \<and> dataSql (q\<lparr>q_quality := Some []\<rparr>) = dataSql (q\<lparr>q_quality := None\<rparr>)
   \<and> dataParams (q\<lparr>q_quality := Some []\<rparr>) = dataParams (q\<lparr>q_quality := None\<rparr>)"
proof -
  have s: "add_search_filter (Some []) b = b" "add_search_filter None b = b" for b
    by (simp_all add: add_search_filter_def)
  have u: "add_quality_filter (Some []) b = b" "add_quality_filter None b = b" for b
    by (simp_all add: add_quality_filter_def)
  have h: "handler db (req\<lparr>query := (query req)\<lparr>q_id := Some []\<rparr>\<rparr>) =
     handler db (req\<lparr>query := (query req)\<lparr>q_id := None\<rparr>\<rparr>)"
  proof -
    let ?a = "(query req)\<lparr>q_id := Some []\<rparr>" and ?b = "(query req)\<lparr>q_id := None\<rparr>"
    have e: "build_filters ?a = build_filters ?b" "truthy (q_id ?a) = truthy (q_id ?b)"
      "currentPage ?a = currentPage ?b" "currentLimit ?a = currentLimit ?b"
      "orderByClause ?a = orderByClause ?b" "sort_of ?a = sort_of ?b"
      "sortDir_of ?a = sortDir_of ?b"
      by (simp_all add: plan_defs)
    have f: "countSql ?a = countSql ?b" "countParams ?a = countParams ?b"
      "dataSql ?a = dataSql ?b" "dataParams ?a = dataParams ?b" "offset ?a = offset ?b"
      "make_envelope ?a = (make_envelope ?b :: 'a list \<Rightarrow> int \<Rightarrow> int \<Rightarrow> 'a envelope)"
      unfolding countSql_def countParams_def dataSql_def dataParams_def offset_def
        make_envelope_def e by simp_all
    have g: "data_query db ?a = data_query db ?b"
      unfolding data_query_def f e ..
    have "run_queries db ?a = run_queries db ?b"
      unfolding run_queries_def f e g ..
    then show ?thesis by (simp add: handler_def)
  qed
  have b1: "build_filters (q\<lparr>q_id := Some []\<rparr>) =
       add_type_filter (q_type q) (add_quality_filter (q_quality q)
         (add_search_filter (q_search q) initial_builder))"
    by (simp add: build_filters_def)
  have b2: "build_filters (q\<lparr>q_search := Some []\<rparr>) = build_filters (q\<lparr>q_search := None\<rparr>)"
    by (simp add: build_filters_def s split: option.split)
  have b3: "build_filters (q\<lparr>q_quality := Some []\<rparr>) = build_filters (q\<lparr>q_quality := None\<rparr>)"
    by (simp add: build_filters_def u split: option.split)
  have o2: "truthy (q_id (q\<lparr>q_search := Some []\<rparr>)) = truthy (q_id (q\<lparr>q_search := None\<rparr>))"
    "orderByClause (q\<lparr>q_search := Some []\<rparr>) = orderByClause (q\<lparr>q_search := None\<rparr>)"
    "currentLimit (q\<lparr>q_search := Some []\<rparr>) = currentLimit (q\<lparr>q_search := None\<rparr>)"
    "offset (q\<lparr>q_search := Some []\<rparr>) = offset (q\<lparr>q_search := None\<rparr>)"
    by (simp_all add: orderByClause_def sortColumn_def sortDirection_def sort_of_def
        sortDir_of_def currentPage_def currentLimit_def offset_def page_of_def limit_of_def)
  have c2: "countSql (q\<lparr>q_search := Some []\<rparr>) = countSql (q\<lparr>q_search := None\<rparr>)"
    "dataSql (q\<lparr>q_search := Some []\<rparr>) = dataSql (q\<lparr>q_search := None\<rparr>)"
    "dataParams (q\<lparr>q_search := Some []\<rparr>) = dataParams (q\<lparr>q_search := None\<rparr>)"
    unfolding countSql_def dataSql_def dataParams_def b2 o2 by (rule refl)+
  have o3: "truthy (q_id (q\<lparr>q_quality := Some []\<rparr>)) = truthy (q_id (q\<lparr>q_quality := None\<rparr>))"
    "orderByClause (q\<lparr>q_quality := Some []\<rparr>) = orderByClause (q\<lparr>q_quality := None\<rparr>)"
    "currentLimit (q\<lparr>q_quality := Some []\<rparr>) = currentLimit (q\<lparr>q_quality := None\<rparr>)"
    "offset (q\<lparr>q_quality := Some []\<rparr>) = offset (q\<lparr>q_quality := None\<rparr>)"
    by (simp_all add: orderByClause_def sortColumn_def sortDirection_def sort_of_def
        sortDir_of_def currentPage_def currentLimit_def offset_def page_of_def limit_of_def)
  have c3: "countSql (q\<lparr>q_quality := Some []\<rparr>) = countSql (q\<lparr>q_quality := None\<rparr>)"
    "dataSql (q\<lparr>q_quality := Some []\<rparr>) = dataSql (q\<lparr>q_quality := None\<rparr>)"
    "dataParams (q\<lparr>q_quality := Some []\<rparr>) = dataParams (q\<lparr>q_quality := None\<rparr>)"
    unfolding countSql_def dataSql_def dataParams_def b3 o3 by (rule refl)+
  from s u h b1 b2 b3 c2 c3 show ?thesis by simp
qed

theorem empty_string_as_absent_witness:
  "build_filters (no_params\<lparr>q_quality := Some ''720p'', q_id := Some []\<rparr>) =
     \<lparr>baseQuery = ''FROM movies WHERE 1=1 AND quality = $1'',
      queryParams = [JStr ''720p''], paramIndex = 2\<rparr>
   \<and> handler no_rows \<lparr>http_method = ''GET'', query = no_params\<lparr>q_id := Some []\<rparr>\<rparr> =
       handler no_rows \<lparr>http_method = ''GET'', query = no_params\<lparr>q_id := None\<rparr>\<rparr>"
proof -
  have v: "add_type_filter None (add_quality_filter (Some ''720p'')
             (add_search_filter None initial_builder)) =
           \<lparr>baseQuery = ''FROM movies WHERE 1=1 AND quality = $1'',
            queryParams = [JStr ''720p''], paramIndex = 2\<rparr>"
    by code_simp
  have n: "q_type no_params = None" "q_search no_params = None"
    by (simp_all add: no_params_def)
  from empty_string_as_absent [of no_rows "\<lparr>http_method = ''GET'', query = no_params\<rparr>"
         "no_params\<lparr>q_quality := Some ''720p''\<rparr>" initial_builder]
  show ?thesis by (simp add: v n)
qed

end
